theory Spec2Isabelle
  imports Main "HOL-Library.AList"
begin

text \<open>
  A shallow embedding of the backend of the festive notifications app: the helper module
  \<^verbatim>\<open>hookdeck-publisher\<close> (\<^verbatim>\<open>publishToHookdeck\<close>, \<^verbatim>\<open>fetchProductImage\<close>,
  \<^verbatim>\<open>transformOrderToNotification\<close>, \<^verbatim>\<open>publishOrderNotification\<close>), the route
  \<^verbatim>\<open>webhooks.orders.create\<close> in its two revisions, and the guard at the top of the
  helper module \<^verbatim>\<open>webhooks\<close>. Asynchronous functions are functions that return either
  the exception with which the promise rejects (\<open>Inl\<close>) or the value with which it
  resolves (\<open>Inr\<close>), together with the effects they caused. The collaborators
  (\<^verbatim>\<open>process.env\<close>, \<^verbatim>\<open>fetch\<close>, the admin GraphQL client, \<^verbatim>\<open>authenticate.webhook\<close>)
  are parameters.
\<close>

section \<open>Values of the payloads\<close>

text \<open>
  The webhook payload and the responses of the collaborators are parsed JSON. A value of
  type \<open>json option\<close> is a JavaScript value read from such a document: \<open>None\<close> is
  \<^verbatim>\<open>undefined\<close> (the property is not there), \<open>Some JNull\<close> is \<^verbatim>\<open>null\<close>.
  Numbers in the payloads are integers (identifiers, quantities, weights).
\<close>

datatype json =
    JNull
  | JBool bool
  | JNum int
  | JStr string
  | JArr "json list"
  | JObj "(string \<times> json) list"

text \<open>
  The result of adding JavaScript numbers whose values are integers: an integer, or one
  of the special values. A number is an IEEE double: the exact sum is rounded to the
  nearest value with 53 significant bits, a tie going to the even one, and a rounded sum
  of magnitude \<open>2^1024\<close> or more is an infinity. Sums of magnitude up to \<open>2^53\<close>
  are exact. The integers of a parsed payload are themselves doubles.
\<close>

datatype number = Num int | PosInfinity | NegInfinity | NaN

function bit_length :: "int \<Rightarrow> nat" where
  "bit_length n = (if n \<le> 0 then 0 else Suc (bit_length (n div 2)))"
  by pat_completeness auto
termination
  by (relation "measure nat") auto

declare bit_length.simps [simp del]

definition round_double :: "int \<Rightarrow> int" where
  "round_double x =
     (if \<bar>x\<bar> \<le> 2 ^ 53 then x
      else
        (let k = bit_length \<bar>x\<bar> - 53;
             q = \<bar>x\<bar> div 2 ^ k;
             r = \<bar>x\<bar> mod 2 ^ k;
             q' = (if 2 * r < 2 ^ k then q
                   else if 2 ^ k < 2 * r then q + 1
                   else if even q then q else q + 1)
         in sgn x * (q' * 2 ^ k)))"

definition to_number :: "int \<Rightarrow> number" where
  "to_number x =
     (if 2 ^ 1024 \<le> x then PosInfinity
      else if x \<le> - (2 ^ 1024) then NegInfinity
      else Num x)"

text \<open>The operator \<^verbatim>\<open>+\<close> on numbers.\<close>

fun js_add :: "number \<Rightarrow> number \<Rightarrow> number" where
  "js_add (Num a) (Num b) = to_number (round_double (a + b))"
| "js_add NaN y = NaN"
| "js_add x NaN = NaN"
| "js_add PosInfinity NegInfinity = NaN"
| "js_add NegInfinity PosInfinity = NaN"
| "js_add PosInfinity y = PosInfinity"
| "js_add x PosInfinity = PosInfinity"
| "js_add NegInfinity y = NegInfinity"
| "js_add x NegInfinity = NegInfinity"

text \<open>
  Exceptions. \<open>Error m\<close> is \<^verbatim>\<open>new Error(m)\<close> raised by the application,
  \<open>TypeError m\<close> is raised by the runtime on a property access of \<^verbatim>\<open>null\<close>,
  \<open>ThrownResponse s\<close> is a thrown \<^verbatim>\<open>Response\<close> of status \<open>s\<close>, and \<open>Failure m\<close>
  is whatever an external collaborator (the network, a response body reader, the
  authentication library, the product catalogue) raises.
\<close>

datatype exn =
    Error string
  | TypeError string
  | ThrownResponse nat
  | Failure string

section \<open>Orders and notifications\<close>

text \<open>
  A line item of the inbound order. The fields that \<^verbatim>\<open>transformOrderToNotification\<close>
  reads are named; \<open>li_other\<close> holds every other property of the line item
  (properties, tax lines, fulfilment data, ...). Fields that the code only copies are kept
  as raw values; \<open>li_quantity\<close> is added up and \<open>li_product_id\<close> is tested and handed
  to the image lookup, so they carry the types of the interface
  \<^verbatim>\<open>OrderNotificationLineItem\<close>.
\<close>

record line_item =
  li_name :: "json option"
  li_title :: "json option"
  li_quantity :: int
  li_price :: "json option"
  li_sku :: "json option"
  li_product_id :: "int option"
  li_variant_id :: "json option"
  li_grams :: "json option"
  li_vendor :: "json option"
  li_requires_shipping :: "json option"
  li_taxable :: "json option"
  li_gift_card :: "json option"
  li_other :: "(string \<times> json) list"

text \<open>
  The inbound order. \<open>o_other\<close> holds every property of the payload that the code never
  reads: the customer, e-mail address, phone number, billing and shipping addresses,
  payment details, browser IP address, order number and so on.
\<close>

record order =
  o_created_at :: "json option"
  o_currency :: "json option"
  o_total_price :: "json option"
  o_subtotal_price :: "json option"
  o_total_tax :: "json option"
  o_total_discounts :: "json option"
  o_line_items :: "line_item list option"
  o_shop_domain :: "string option"
  o_test :: "bool option"
  o_total_weight :: "json option"
  o_tags :: "json option"
  o_source_name :: "json option"
  o_other :: "(string \<times> json) list"

text \<open>The interface \<^verbatim>\<open>OrderNotificationLineItem\<close>.\<close>

record notification_line_item =
  ni_name :: "json option"
  ni_title :: "json option"
  ni_quantity :: int
  ni_price :: "json option"
  ni_sku :: "json option"
  ni_product_id :: "int option"
  ni_variant_id :: "json option"
  ni_grams :: "json option"
  ni_vendor :: "json option"
  ni_requires_shipping :: "json option"
  ni_taxable :: "json option"
  ni_gift_card :: "json option"
  ni_image :: "json option"

text \<open>
  The interface \<^verbatim>\<open>OrderNotification\<close>, with the fields that
  \<^verbatim>\<open>transformOrderToNotification\<close> sets.
\<close>

record notification =
  n_created_at :: "json option"
  n_currency :: "json option"
  n_total_price :: "json option"
  n_subtotal_price :: "json option"
  n_total_tax :: "json option"
  n_total_discounts :: "json option"
  n_item_count :: number
  n_line_items :: "notification_line_item list"
  n_shop :: string
  n_test :: bool
  n_total_weight :: "json option"
  n_tags :: "json option"
  n_source_name :: "json option"

section \<open>Effects\<close>

text \<open>
  An outbound HTTP request as \<^verbatim>\<open>fetch\<close> receives it. The body is the JSON document
  that \<^verbatim>\<open>JSON.stringify\<close> writes, kept as a value.
\<close>

record http_request =
  req_url :: string
  req_method :: string
  req_headers :: "(string \<times> string) list"
  req_body :: json

text \<open>
  Every function returns its result together with the events it caused, in the order in
  which they were issued: entering the webhook authentication, the normalizer and the
  publisher, a product query sent to the catalogue, an HTTP request handed to
  \<^verbatim>\<open>fetch\<close>. Writing log lines is not recorded.
\<close>

datatype event =
    Authenticate
  | Normalize
  | Publish
  | ImageQuery int
  | HttpPost http_request

section \<open>The image resolver\<close>

text \<open>
  What one call of \<^verbatim>\<open>admin.graphql\<close> for a product does: it throws, or it returns a
  response whose \<^verbatim>\<open>json()\<close> throws or yields the parsed body. The admin client is a
  function from the product identifier to that behaviour.
\<close>

datatype graphql_outcome =
    QueryThrows exn
  | QueryResponds "exn + json"

type_synonym admin_client = "int \<Rightarrow> graphql_outcome"

text \<open>Optional chaining \<^verbatim>\<open>v?.k\<close> on a parsed JSON value.\<close>

fun opt_get :: "json option \<Rightarrow> string \<Rightarrow> json option" where
  "opt_get None k = None"
| "opt_get (Some JNull) k = None"
| "opt_get (Some (JObj props)) k = map_of props k"
| "opt_get (Some v) k = None"

definition image_url_of :: "json \<Rightarrow> json option" where
  "image_url_of data =
     opt_get (opt_get (opt_get (opt_get (Some data) ''data'') ''product'') ''featuredImage'') ''url''"

definition fetchProductImage :: "admin_client \<Rightarrow> int \<Rightarrow> (exn + json option) \<times> event list" where
  "fetchProductImage admin productId =
     (let attempt =
            (case admin productId of
               QueryThrows e \<Rightarrow> Inl e
             | QueryResponds body \<Rightarrow>
                 (case body of
                    Inl e \<Rightarrow> Inl e
                  | Inr data \<Rightarrow> Inr (image_url_of data)))
      in (case attempt of
            Inl error \<Rightarrow> Inr None
          | Inr imageUrl \<Rightarrow> Inr imageUrl,
          [ImageQuery productId]))"

section \<open>The normalizer\<close>

text \<open>
  The body of the callback that \<^verbatim>\<open>transformOrderToNotification\<close> maps over the line
  items. The test \<^verbatim>\<open>admin && item.product_id\<close> fails for a missing client, a missing
  product identifier and the identifier \<open>0\<close>.
\<close>

definition line_item_callback ::
  "admin_client option \<Rightarrow> line_item \<Rightarrow> (exn + notification_line_item) \<times> event list" where
  "line_item_callback admin item =
     (let lookup =
            (case admin of
               None \<Rightarrow> (Inr None, [])
             | Some client \<Rightarrow>
                 (case li_product_id item of
                    None \<Rightarrow> (Inr None, [])
                  | Some productId \<Rightarrow>
                      if productId = 0 then (Inr None, [])
                      else fetchProductImage client productId))
      in (case fst lookup of
            Inl e \<Rightarrow> Inl e
          | Inr img \<Rightarrow>
              Inr \<lparr> ni_name = li_name item,
                    ni_title = li_title item,
                    ni_quantity = li_quantity item,
                    ni_price = li_price item,
                    ni_sku = li_sku item,
                    ni_product_id = li_product_id item,
                    ni_variant_id = li_variant_id item,
                    ni_grams = li_grams item,
                    ni_vendor = li_vendor item,
                    ni_requires_shipping = li_requires_shipping item,
                    ni_taxable = li_taxable item,
                    ni_gift_card = li_gift_card item,
                    ni_image = img \<rparr>,
          snd lookup))"

text \<open>
  \<^verbatim>\<open>Promise.all\<close>: the results in the order of the promises, or the rejection of a
  promise that rejects.
\<close>

fun promise_all :: "(exn + 'a) list \<Rightarrow> exn + 'a list" where
  "promise_all [] = Inr []"
| "promise_all (Inl e # ps) = Inl e"
| "promise_all (Inr v # ps) =
     (case promise_all ps of Inl e \<Rightarrow> Inl e | Inr vs \<Rightarrow> Inr (v # vs))"

text \<open>\<^verbatim>\<open>a || b\<close> on optional strings, and with a string as the last alternative.\<close>

definition or_string :: "string option \<Rightarrow> string option \<Rightarrow> string option" where
  "or_string a b = (case a of None \<Rightarrow> b | Some s \<Rightarrow> if s = [] then b else a)"

definition or_default :: "string option \<Rightarrow> string \<Rightarrow> string" where
  "or_default a d = (case a of None \<Rightarrow> d | Some s \<Rightarrow> if s = [] then d else s)"

text \<open>\<^verbatim>\<open>order.test || false\<close>.\<close>

definition or_false :: "bool option \<Rightarrow> bool" where
  "or_false a = (case a of None \<Rightarrow> False | Some b \<Rightarrow> b)"

text \<open>\<^verbatim>\<open>order.line_items || []\<close>: an array, also an empty one, is truthy.\<close>

definition items_or_empty :: "line_item list option \<Rightarrow> line_item list" where
  "items_or_empty a = (case a of None \<Rightarrow> [] | Some items \<Rightarrow> items)"

definition transformOrderToNotification ::
  "order \<Rightarrow> string option \<Rightarrow> admin_client option \<Rightarrow> (exn + notification) \<times> event list" where
  "transformOrderToNotification order shopDomain admin =
     (let results = map (line_item_callback admin) (items_or_empty (o_line_items order));
          trace = Normalize # concat (map snd results)
      in (case promise_all (map fst results) of
            Inl e \<Rightarrow> (Inl e, trace)
          | Inr lineItems \<Rightarrow>
              (let itemCount =
                     foldl (\<lambda>total item. js_add total (Num (ni_quantity item))) (Num 0) lineItems
               in (Inr \<lparr> n_created_at = o_created_at order,
                         n_currency = o_currency order,
                         n_total_price = o_total_price order,
                         n_subtotal_price = o_subtotal_price order,
                         n_total_tax = o_total_tax order,
                         n_total_discounts = o_total_discounts order,
                         n_item_count = itemCount,
                         n_line_items = lineItems,
                         n_shop = or_default (or_string shopDomain (o_shop_domain order)) [],
                         n_test = or_false (o_test order),
                         n_total_weight = o_total_weight order,
                         n_tags = o_tags order,
                         n_source_name = o_source_name order \<rparr>,
                   trace))))"

text \<open>
  The callback in closed form: the line item that it returns and the product queries that
  it sends. \<open>line_item_callback_eq\<close> below proves that the callback computes exactly these.
\<close>

definition resolved_image :: "admin_client option \<Rightarrow> line_item \<Rightarrow> json option" where
  "resolved_image admin item =
     (case admin of
        None \<Rightarrow> None
      | Some client \<Rightarrow>
          (case li_product_id item of
             None \<Rightarrow> None
           | Some productId \<Rightarrow>
               if productId = 0 then None
               else (case client productId of
                       QueryThrows e \<Rightarrow> None
                     | QueryResponds body \<Rightarrow>
                         (case body of Inl e \<Rightarrow> None | Inr data \<Rightarrow> image_url_of data))))"

definition notification_item :: "admin_client option \<Rightarrow> line_item \<Rightarrow> notification_line_item" where
  "notification_item admin item =
     \<lparr> ni_name = li_name item,
       ni_title = li_title item,
       ni_quantity = li_quantity item,
       ni_price = li_price item,
       ni_sku = li_sku item,
       ni_product_id = li_product_id item,
       ni_variant_id = li_variant_id item,
       ni_grams = li_grams item,
       ni_vendor = li_vendor item,
       ni_requires_shipping = li_requires_shipping item,
       ni_taxable = li_taxable item,
       ni_gift_card = li_gift_card item,
       ni_image = resolved_image admin item \<rparr>"

definition image_queries :: "admin_client option \<Rightarrow> line_item \<Rightarrow> event list" where
  "image_queries admin item =
     (case admin of
        None \<Rightarrow> []
      | Some client \<Rightarrow>
          (case li_product_id item of
             None \<Rightarrow> []
           | Some productId \<Rightarrow> if productId = 0 then [] else [ImageQuery productId]))"

section \<open>The publisher\<close>

text \<open>
  The process environment \<^verbatim>\<open>process.env\<close>, and the test \<^verbatim>\<open>!apiKey\<close>: a variable
  that is not set and one that is set to the empty string are both rejected.
\<close>

type_synonym environment = "string \<Rightarrow> string option"

definition credential :: "environment \<Rightarrow> string option" where
  "credential env =
     (case env ''HOOKDECK_API_KEY'' of
        None \<Rightarrow> None
      | Some apiKey \<Rightarrow> if apiKey = [] then None else Some apiKey)"

text \<open>
  A response of \<^verbatim>\<open>fetch\<close>: the status line, what \<^verbatim>\<open>response.text()\<close> yields and
  what \<^verbatim>\<open>response.json()\<close> yields (either may throw). \<^verbatim>\<open>response.ok\<close> is, by the
  Fetch standard, the status being in the range 200 to 299.
\<close>

record http_response =
  resp_status :: nat
  resp_status_text :: string
  resp_text :: "exn + string"
  resp_json :: "exn + json"

definition resp_ok :: "http_response \<Rightarrow> bool" where
  "resp_ok response \<longleftrightarrow> 200 \<le> resp_status response \<and> resp_status response \<le> 299"

datatype fetch_outcome =
    FetchRejects exn
  | FetchResolves http_response

type_synonym fetch_function = "http_request \<Rightarrow> fetch_outcome"

text \<open>The decimal digits of a number, as a template literal writes the status.\<close>

definition digit_char :: "nat \<Rightarrow> char" where
  "digit_char d = ''0123456789'' ! d"

function string_of_nat :: "nat \<Rightarrow> string" where
  "string_of_nat n =
     (if n < 10 then [digit_char n] else string_of_nat (n div 10) @ [digit_char (n mod 10)])"
  by pat_completeness auto
termination
  by (relation "measure id") auto

declare string_of_nat.simps [simp del]

text \<open>
  The object spread \<^verbatim>\<open>{...base, ...headers}\<close>: a name that is already there keeps its
  place and takes the new value, a new name goes to the end; spreading \<^verbatim>\<open>undefined\<close>
  adds nothing.
\<close>

definition spread :: "(string \<times> string) list \<Rightarrow> (string \<times> string) list option \<Rightarrow> (string \<times> string) list" where
  "spread base headers =
     (case headers of
        None \<Rightarrow> base
      | Some custom \<Rightarrow> foldl (\<lambda>acc (k, v). AList.update k v acc) base custom)"

text \<open>The request that \<^verbatim>\<open>publishToHookdeck\<close> hands to \<^verbatim>\<open>fetch\<close>.\<close>

definition publish_request ::
  "string \<Rightarrow> string \<Rightarrow> json \<Rightarrow> (string \<times> string) list option \<Rightarrow> http_request" where
  "publish_request apiKey sourceName data headers =
     \<lparr> req_url = ''https://hkdk.events/v1/publish'',
       req_method = ''POST'',
       req_headers =
         spread [(''Content-Type'', ''application/json''),
                 (''Authorization'', ''Bearer '' @ apiKey),
                 (''X-Hookdeck-Source-Name'', sourceName)] headers,
       req_body = JObj [(''data'', data)] \<rparr>"

definition publishToHookdeck ::
  "environment \<Rightarrow> fetch_function \<Rightarrow> string \<Rightarrow> json \<Rightarrow> (string \<times> string) list option
     \<Rightarrow> (exn + json) \<times> event list" where
  "publishToHookdeck env fetch sourceName data headers =
     (case credential env of
        None \<Rightarrow> (Inl (Error ''HOOKDECK_API_KEY environment variable is not set''), [Publish])
      | Some apiKey \<Rightarrow>
          (let request = publish_request apiKey sourceName data headers
           in (case fetch request of
                 FetchRejects error \<Rightarrow> Inl error
               | FetchResolves response \<Rightarrow>
                   if \<not> resp_ok response then
                     (case resp_text response of
                        Inl error \<Rightarrow> Inl error
                      | Inr errorText \<Rightarrow>
                          Inl (Error (''Hookdeck publish failed: '' @ string_of_nat (resp_status response)
                                      @ '' '' @ resp_status_text response @ '' - '' @ errorText)))
                   else
                     (case resp_json response of
                        Inl error \<Rightarrow> Inl error
                      | Inr result \<Rightarrow> Inr result),
               [Publish, HttpPost request])))"

text \<open>
  What \<^verbatim>\<open>JSON.stringify\<close> writes for a notification: the properties in the order in
  which the object literal lists them, leaving out every property whose value is
  \<^verbatim>\<open>undefined\<close>, and \<^verbatim>\<open>null\<close> for a number that is not finite.
\<close>

definition opt_prop :: "string \<Rightarrow> json option \<Rightarrow> (string \<times> json) list" where
  "opt_prop k v = (case v of None \<Rightarrow> [] | Some j \<Rightarrow> [(k, j)])"

definition line_item_to_json :: "notification_line_item \<Rightarrow> json" where
  "line_item_to_json item =
     JObj (opt_prop ''name'' (ni_name item)
         @ opt_prop ''title'' (ni_title item)
         @ [(''quantity'', JNum (ni_quantity item))]
         @ opt_prop ''price'' (ni_price item)
         @ opt_prop ''sku'' (ni_sku item)
         @ opt_prop ''product_id'' (map_option JNum (ni_product_id item))
         @ opt_prop ''variant_id'' (ni_variant_id item)
         @ opt_prop ''grams'' (ni_grams item)
         @ opt_prop ''vendor'' (ni_vendor item)
         @ opt_prop ''requires_shipping'' (ni_requires_shipping item)
         @ opt_prop ''taxable'' (ni_taxable item)
         @ opt_prop ''gift_card'' (ni_gift_card item)
         @ opt_prop ''image'' (ni_image item))"

fun number_to_json :: "number \<Rightarrow> json" where
  "number_to_json (Num x) = JNum x"
| "number_to_json x = JNull"

definition notification_to_json :: "notification \<Rightarrow> json" where
  "notification_to_json n =
     JObj (opt_prop ''created_at'' (n_created_at n)
         @ opt_prop ''currency'' (n_currency n)
         @ opt_prop ''total_price'' (n_total_price n)
         @ opt_prop ''subtotal_price'' (n_subtotal_price n)
         @ opt_prop ''total_tax'' (n_total_tax n)
         @ opt_prop ''total_discounts'' (n_total_discounts n)
         @ [(''item_count'', number_to_json (n_item_count n)),
            (''line_items'', JArr (map line_item_to_json (n_line_items n))),
            (''shop'', JStr (n_shop n)),
            (''test'', JBool (n_test n))]
         @ opt_prop ''total_weight'' (n_total_weight n)
         @ opt_prop ''tags'' (n_tags n)
         @ opt_prop ''source_name'' (n_source_name n))"

text \<open>
  The property read \<^verbatim>\<open>result.id\<close> that \<^verbatim>\<open>publishOrderNotification\<close> makes for its
  log line: it throws on \<^verbatim>\<open>null\<close> and yields a value, or \<^verbatim>\<open>undefined\<close>, on
  everything else.
\<close>

fun get_prop :: "json \<Rightarrow> string \<Rightarrow> exn + json option" where
  "get_prop JNull k = Inl (TypeError (''Cannot read properties of null (reading '' @ k @ '')''))"
| "get_prop (JObj props) k = Inr (map_of props k)"
| "get_prop v k = Inr None"

definition publishOrderNotification ::
  "environment \<Rightarrow> fetch_function \<Rightarrow> order \<Rightarrow> string option \<Rightarrow> admin_client option
     \<Rightarrow> (exn + json) \<times> event list" where
  "publishOrderNotification env fetch order shopDomain admin =
     (case transformOrderToNotification order shopDomain admin of
        (Inl error, t) \<Rightarrow> (Inl error, t)
      | (Inr notification, t) \<Rightarrow>
          (case publishToHookdeck env fetch ''shopify-notifications-publish''
                  (notification_to_json notification) None of
             (Inl error, t') \<Rightarrow> (Inl error, t @ t')
           | (Inr result, t') \<Rightarrow>
               (case get_prop result ''id'' of
                  Inl error \<Rightarrow> (Inl error, t @ t')
                | Inr ident \<Rightarrow> (Inr result, t @ t'))))"

section \<open>The webhook entry point\<close>

text \<open>
  What \<^verbatim>\<open>authenticate.webhook\<close> returns for a request that it accepts. The function
  itself belongs to the storefront framework; it is a parameter here, and it throws for a
  request that it rejects.
\<close>

record webhook_context =
  wc_topic :: string
  wc_shop :: string
  wc_admin :: "admin_client option"
  wc_payload :: order

datatype reply = Response nat

text \<open>
  The route \<^verbatim>\<open>webhooks.orders.create\<close> in the revision that publishes the
  notification.
\<close>

definition action ::
  "('request \<Rightarrow> exn + webhook_context) \<Rightarrow> environment \<Rightarrow> fetch_function \<Rightarrow> 'request
     \<Rightarrow> (exn + reply) \<times> event list" where
  "action authenticate_webhook env fetch request =
     (case authenticate_webhook request of
        Inl rejection \<Rightarrow> (Inl rejection, [Authenticate])
      | Inr ctx \<Rightarrow>
          (case publishOrderNotification env fetch (wc_payload ctx) (Some (wc_shop ctx)) (wc_admin ctx) of
             (Inl error, t) \<Rightarrow> (Inl error, Authenticate # t)
           | (Inr result, t) \<Rightarrow> (Inr (Response 200), Authenticate # t)))"

text \<open>
  The same route in the revision that only logs the payload: it neither normalizes nor
  publishes, and without an admin client it throws an empty response.
\<close>

definition action_log_only ::
  "('request \<Rightarrow> exn + webhook_context) \<Rightarrow> 'request \<Rightarrow> (exn + reply) \<times> event list" where
  "action_log_only authenticate_webhook request =
     (case authenticate_webhook request of
        Inl rejection \<Rightarrow> (Inl rejection, [Authenticate])
      | Inr ctx \<Rightarrow>
          (case wc_admin ctx of
             None \<Rightarrow> (Inl (ThrownResponse 200), [Authenticate])
           | Some admin \<Rightarrow> (Inr (Response 200), [Authenticate])))"

text \<open>
  The first statements of the module \<^verbatim>\<open>helpers/webhooks\<close>, which run when the module
  is loaded: the guard on the credential, then the construction of the gateway client
  from the token.
\<close>

definition webhooks_module_init :: "environment \<Rightarrow> exn + string" where
  "webhooks_module_init env =
     (case credential env of
        None \<Rightarrow> Inl (Error ''HOOKDECK_API_KEY is required'')
      | Some token \<Rightarrow> Inr token)"

section \<open>Closed forms and predicates of the statements\<close>

text \<open>
  The notification that \<^verbatim>\<open>transformOrderToNotification\<close> returns, in closed form;
  \<open>transform_eq\<close> below proves that the function computes it. The item count is the
  sum of the quantities taken from left to right with the addition of numbers.
\<close>

definition js_sum :: "int list \<Rightarrow> number" where
  "js_sum quantities = foldl (\<lambda>total q. js_add total (Num q)) (Num 0) quantities"

definition notification_of :: "order \<Rightarrow> string option \<Rightarrow> admin_client option \<Rightarrow> notification" where
  "notification_of order shopDomain admin =
     \<lparr> n_created_at = o_created_at order,
       n_currency = o_currency order,
       n_total_price = o_total_price order,
       n_subtotal_price = o_subtotal_price order,
       n_total_tax = o_total_tax order,
       n_total_discounts = o_total_discounts order,
       n_item_count = js_sum (map li_quantity (items_or_empty (o_line_items order))),
       n_line_items = map (notification_item admin) (items_or_empty (o_line_items order)),
       n_shop = or_default (or_string shopDomain (o_shop_domain order)) [],
       n_test = or_false (o_test order),
       n_total_weight = o_total_weight order,
       n_tags = o_tags order,
       n_source_name = o_source_name order \<rparr>"

text \<open>
  Two line items, and two orders, that agree on every allow-listed field. Nothing is asked
  of \<open>li_other\<close> and \<open>o_other\<close>. A missing \<^verbatim>\<open>line_items\<close> agrees with a missing one
  only.
\<close>

definition same_allowed_item :: "line_item \<Rightarrow> line_item \<Rightarrow> bool" where
  "same_allowed_item a b \<longleftrightarrow>
     li_name a = li_name b \<and> li_title a = li_title b \<and> li_quantity a = li_quantity b \<and>
     li_price a = li_price b \<and> li_sku a = li_sku b \<and> li_product_id a = li_product_id b \<and>
     li_variant_id a = li_variant_id b \<and> li_grams a = li_grams b \<and> li_vendor a = li_vendor b \<and>
     li_requires_shipping a = li_requires_shipping b \<and> li_taxable a = li_taxable b \<and>
     li_gift_card a = li_gift_card b"

definition same_allowed_order :: "order \<Rightarrow> order \<Rightarrow> bool" where
  "same_allowed_order a b \<longleftrightarrow>
     o_created_at a = o_created_at b \<and> o_currency a = o_currency b \<and>
     o_total_price a = o_total_price b \<and> o_subtotal_price a = o_subtotal_price b \<and>
     o_total_tax a = o_total_tax b \<and> o_total_discounts a = o_total_discounts b \<and>
     rel_option (list_all2 same_allowed_item) (o_line_items a) (o_line_items b) \<and>
     o_shop_domain a = o_shop_domain b \<and> o_test a = o_test b \<and>
     o_total_weight a = o_total_weight b \<and> o_tags a = o_tags b \<and>
     o_source_name a = o_source_name b"




fun is_http_post :: "event \<Rightarrow> bool" where
  "is_http_post (HttpPost request) = True"
| "is_http_post e = False"

section \<open>Sample inputs\<close>

text \<open>
  The order of the example scenario: two mugs, paid in USD, bought by the customer with
  the address \<^verbatim>\<open>a@b.com\<close>; and the same purchase made by somebody else.
\<close>

definition mug_item :: line_item where
  "mug_item =
     \<lparr> li_name = Some (JStr ''Mug''), li_title = None, li_quantity = 2,
       li_price = Some (JStr ''14.99''), li_sku = None, li_product_id = Some 555,
       li_variant_id = None, li_grams = None, li_vendor = None, li_requires_shipping = None,
       li_taxable = None, li_gift_card = None, li_other = [] \<rparr>"

definition mug_order :: order where
  "mug_order =
     \<lparr> o_created_at = None, o_currency = Some (JStr ''USD''), o_total_price = Some (JStr ''29.99''),
       o_subtotal_price = None, o_total_tax = None, o_total_discounts = None,
       o_line_items = Some [mug_item],
       o_shop_domain = Some ''festive.myshopify.com'', o_test = None, o_total_weight = None,
       o_tags = None, o_source_name = None,
       o_other = [(''customer'', JObj [(''email'', JStr ''a@b.com'')])] \<rparr>"

definition mug_order_other_customer :: order where
  "mug_order_other_customer =
     mug_order
       \<lparr> o_line_items := Some [mug_item \<lparr> li_other := [(''properties'', JStr ''wrap for Ann'')] \<rparr>],
         o_other := [(''customer'', JObj [(''email'', JStr ''c@d.org''), (''phone'', JStr ''555-0100'')]),
                     (''browser_ip'', JStr ''10.0.0.1'')] \<rparr>"

text \<open>An order of three products whose image queries all fail, each in its own way.\<close>

definition failing_catalogue :: admin_client where
  "failing_catalogue productId =
     (if productId = 555 then QueryThrows (Failure ''network down'')
      else if productId = 556 then QueryResponds (Inl (Failure ''Unexpected end of JSON input''))
      else QueryResponds (Inr (JObj [(''data'', JObj [(''product'', JNull)])])))"

definition three_item_order :: order where
  "three_item_order =
     mug_order
       \<lparr> o_line_items := Some [mug_item,
                               mug_item \<lparr> li_name := Some (JStr ''Scarf''), li_quantity := 1,
                                          li_product_id := Some 556 \<rparr>,
                               mug_item \<lparr> li_name := Some (JStr ''Candle''), li_quantity := 4,
                                          li_product_id := Some 557 \<rparr>] \<rparr>"





text \<open>An order of \<open>2^53\<close> mugs and one more.\<close>

definition bulk_order :: order where
  "bulk_order =
     mug_order
       \<lparr> o_line_items := Some [mug_item \<lparr> li_quantity := 9007199254740992 \<rparr>,
                               mug_item \<lparr> li_quantity := 1 \<rparr>] \<rparr>"

definition no_credential :: environment where
  "no_credential name = None"

definition with_credential :: environment where
  "with_credential name = (if name = ''HOOKDECK_API_KEY'' then Some ''hk_key'' else None)"

definition created_response :: http_response where
  "created_response =
     \<lparr> resp_status = 200, resp_status_text = ''OK'',
       resp_text = Inr ''{}'',
       resp_json = Inr (JObj [(''id'', JStr ''evt_1''), (''source_id'', JStr ''src_1''),
                              (''created_at'', JStr ''2025-12-01T00:00:00Z'')]) \<rparr>"

definition fetch_created :: fetch_function where
  "fetch_created request = FetchResolves created_response"

definition unparsable_response :: http_response where
  "unparsable_response =
     \<lparr> resp_status = 200, resp_status_text = ''OK'',
       resp_text = Inr ''<html>ok</html>'',
       resp_json = Inl (Failure ''Unexpected token < in JSON at position 0'') \<rparr>"

definition fetch_unparsable :: fetch_function where
  "fetch_unparsable request = FetchResolves unparsable_response"

definition unavailable_response :: http_response where
  "unavailable_response =
     \<lparr> resp_status = 503, resp_status_text = ''Service Unavailable'',
       resp_text = Inr ''try later'',
       resp_json = Inl (Failure ''Unexpected token t in JSON at position 0'') \<rparr>"

definition fetch_unavailable :: fetch_function where
  "fetch_unavailable request = FetchResolves unavailable_response"

definition no_admin_context :: webhook_context where
  "no_admin_context =
     \<lparr> wc_topic = ''ORDERS_CREATE'', wc_shop = ''festive.myshopify.com'',
       wc_admin = None, wc_payload = mug_order \<rparr>"

definition accept_without_admin :: "unit \<Rightarrow> exn + webhook_context" where
  "accept_without_admin request = Inr no_admin_context"

definition reject_signature :: "unit \<Rightarrow> exn + webhook_context" where
  "reject_signature request = Inl (ThrownResponse 401)"

section \<open>The normalizer computes its closed form\<close>

lemma line_item_callback_eq:
  "line_item_callback admin item = (Inr (notification_item admin item), image_queries admin item)"
  by (simp add: line_item_callback_def notification_item_def resolved_image_def image_queries_def
      fetchProductImage_def Let_def split: option.split graphql_outcome.split sum.split)

lemma promise_all_fulfilled: "promise_all (map (\<lambda>x. Inr (f x)) xs) = Inr (map f xs)"
  by (induction xs) simp_all

lemma callbacks_fulfilled:
  "promise_all (map fst (map (line_item_callback admin) items))
     = Inr (map (notification_item admin) items)"
proof -
  have "map fst (map (line_item_callback admin) items)
          = map (\<lambda>x. Inr (notification_item admin x)) items"
    by (simp add: line_item_callback_eq)
  then show ?thesis by (simp only: promise_all_fulfilled)
qed

lemma callbacks_trace:
  "map snd (map (line_item_callback admin) items) = map (image_queries admin) items"
  by (simp add: line_item_callback_eq)

lemma foldl_quantities:
  "foldl (\<lambda>total item. js_add total (Num (ni_quantity item))) acc
       (map (notification_item admin) items)
     = foldl (\<lambda>total q. js_add total (Num q)) acc (map li_quantity items)"
  by (induction items arbitrary: acc) (simp_all add: notification_item_def)

lemma transform_eq:
  "transformOrderToNotification order shopDomain admin =
     (Inr (notification_of order shopDomain admin),
      Normalize # concat (map (image_queries admin) (items_or_empty (o_line_items order))))"
  unfolding transformOrderToNotification_def Let_def notification_of_def js_sum_def
  by (simp only: callbacks_fulfilled callbacks_trace foldl_quantities sum.case)

lemma line_item_callback_allowed:
  "same_allowed_item a b \<Longrightarrow> line_item_callback admin a = line_item_callback admin b"
  by (cases admin)
     (simp_all add: same_allowed_item_def line_item_callback_eq notification_item_def
        resolved_image_def image_queries_def)

lemma callbacks_allowed:
  "list_all2 same_allowed_item xs ys \<Longrightarrow>
     map (line_item_callback admin) xs = map (line_item_callback admin) ys"
  by (induction xs ys rule: list_all2_induct) (simp_all add: line_item_callback_allowed)

lemma items_allowed:
  "rel_option (list_all2 same_allowed_item) a b \<Longrightarrow>
     map (line_item_callback admin) (items_or_empty a)
       = map (line_item_callback admin) (items_or_empty b)"
  by (cases a; cases b) (simp_all add: items_or_empty_def callbacks_allowed)






lemma js_add_exact:
  "0 \<le> a \<Longrightarrow> 0 \<le> b \<Longrightarrow> a + b \<le> 2 ^ 53 \<Longrightarrow> js_add (Num a) (Num b) = Num (a + b)"
  by (simp add: round_double_def to_number_def)

lemma foldl_js_add_exact:
  "0 \<le> acc \<Longrightarrow> \<forall>q \<in> set qs. 0 \<le> q \<Longrightarrow> acc + sum_list qs \<le> 2 ^ 53 \<Longrightarrow>
     foldl (\<lambda>total q. js_add total (Num q)) (Num acc) qs = Num (acc + sum_list qs)"
proof (induction qs arbitrary: acc)
  case Nil
  then show ?case by simp
next
  case (Cons q qs)
  have "0 \<le> sum_list qs"
    using Cons.prems(2) by (simp add: sum_list_nonneg)
  with Cons.prems have step: "js_add (Num acc) (Num q) = Num (acc + q)"
    by (intro js_add_exact) simp_all
  from Cons.prems
  have "foldl (\<lambda>total q. js_add total (Num q)) (Num (acc + q)) qs = Num ((acc + q) + sum_list qs)"
    by (intro Cons.IH) simp_all
  with step show ?case by (simp add: add.assoc)
qed

lemma js_sum_exact:
  "\<forall>q \<in> set qs. 0 \<le> q \<Longrightarrow> sum_list qs \<le> 2 ^ 53 \<Longrightarrow> js_sum qs = Num (sum_list qs)"
  using foldl_js_add_exact [of 0 qs] by (simp add: js_sum_def)



section \<open>Claims about the normalizer\<close>

text \<open>
  Claim C1. Two orders that agree on every allow-listed field (creation time, currency, the
  four totals, the twelve line-item fields, shop domain, test flag, total weight, tags,
  source name) and differ in anything else (customer name, e-mail, phone, addresses,
  payment details, IP address, any other property) yield the same notification, and also
  the same product queries. Nothing that is not on the allow-list can therefore show in
  the notification.
\<close>

theorem transform_ignores_other_fields:
  assumes "same_allowed_order order1 order2"
  shows "transformOrderToNotification order1 shopDomain admin
           = transformOrderToNotification order2 shopDomain admin"
proof -
  from assms have items:
    "map (line_item_callback admin) (items_or_empty (o_line_items order1))
       = map (line_item_callback admin) (items_or_empty (o_line_items order2))"
    by (simp add: same_allowed_order_def items_allowed)
  from assms have fields:
    "o_created_at order1 = o_created_at order2" "o_currency order1 = o_currency order2"
    "o_total_price order1 = o_total_price order2" "o_subtotal_price order1 = o_subtotal_price order2"
    "o_total_tax order1 = o_total_tax order2" "o_total_discounts order1 = o_total_discounts order2"
    "o_shop_domain order1 = o_shop_domain order2" "o_test order1 = o_test order2"
    "o_total_weight order1 = o_total_weight order2" "o_tags order1 = o_tags order2"
    "o_source_name order1 = o_source_name order2"
    by (simp_all add: same_allowed_order_def)
  show ?thesis
    unfolding transformOrderToNotification_def by (simp only: items fields)
qed

theorem transform_ignores_other_fields_witness:
  "same_allowed_order mug_order mug_order_other_customer \<and>
   o_other mug_order \<noteq> o_other mug_order_other_customer \<and>
   transformOrderToNotification mug_order (Some ''festive.myshopify.com'') (Some failing_catalogue)
     = transformOrderToNotification mug_order_other_customer (Some ''festive.myshopify.com'')
         (Some failing_catalogue)"
proof -
  have same: "same_allowed_order mug_order mug_order_other_customer"
    by (simp add: same_allowed_order_def same_allowed_item_def mug_order_def
        mug_order_other_customer_def mug_item_def)
  have differ: "o_other mug_order \<noteq> o_other mug_order_other_customer"
    by (simp add: mug_order_def mug_order_other_customer_def)
  from same differ transform_ignores_other_fields [OF same] show ?thesis by simp
qed

text \<open>
  Claim C2, as amended. For an order whose quantities are not negative and add up to at
  most \<open>2^53\<close>, the \<^verbatim>\<open>item_count\<close> of the notification is the sum of the
  quantities of the line items; it is 0 when \<^verbatim>\<open>line_items\<close> is missing or empty.
\<close>

theorem item_count_is_sum_of_quantities:
  assumes "\<forall>item \<in> set (items_or_empty (o_line_items order)). 0 \<le> li_quantity item"
    and "sum_list (map li_quantity (items_or_empty (o_line_items order))) \<le> 2 ^ 53"
  shows "\<exists>n. fst (transformOrderToNotification order shopDomain admin) = Inr n \<and>
           n_item_count n = Num (sum_list (map li_quantity (items_or_empty (o_line_items order)))) \<and>
           (o_line_items order = None \<or> o_line_items order = Some [] \<longrightarrow> n_item_count n = Num 0)"
proof -
  from assms
  have "js_sum (map li_quantity (items_or_empty (o_line_items order)))
          = Num (sum_list (map li_quantity (items_or_empty (o_line_items order))))"
    by (intro js_sum_exact) simp_all
  then show ?thesis
    by (auto simp add: transform_eq notification_of_def items_or_empty_def)
qed

theorem item_count_is_sum_of_quantities_witness:
  "list_all (\<lambda>item. 0 \<le> li_quantity item) (items_or_empty (o_line_items three_item_order)) \<and>
   sum_list (map li_quantity (items_or_empty (o_line_items three_item_order))) = 7 \<and>
   (\<exists>n. fst (transformOrderToNotification three_item_order None None) = Inr n \<and>
        n_item_count n = Num 7) \<and>
   (\<exists>n. fst (transformOrderToNotification (mug_order \<lparr> o_line_items := None \<rparr>) None None) = Inr n \<and>
        n_item_count n = Num 0)"
proof -
  have nonneg: "\<forall>item \<in> set (items_or_empty (o_line_items three_item_order)). 0 \<le> li_quantity item"
    by (simp add: three_item_order_def items_or_empty_def mug_item_def)
  have total: "sum_list (map li_quantity (items_or_empty (o_line_items three_item_order))) = 7"
    by (simp add: three_item_order_def items_or_empty_def mug_item_def)
  have bound: "sum_list (map li_quantity (items_or_empty (o_line_items three_item_order))) \<le> 2 ^ 53"
    by (simp add: total)
  have nonneg': "\<forall>item \<in> set (items_or_empty (o_line_items (mug_order \<lparr> o_line_items := None \<rparr>))).
                   0 \<le> li_quantity item"
    by (simp add: items_or_empty_def)
  have bound': "sum_list (map li_quantity (items_or_empty (o_line_items (mug_order \<lparr> o_line_items := None \<rparr>))))
                  \<le> 2 ^ 53"
    by (simp add: items_or_empty_def)
  from item_count_is_sum_of_quantities [OF nonneg bound, of None None]
       item_count_is_sum_of_quantities [OF nonneg' bound', of None None]
       nonneg total
  show ?thesis by (auto simp add: list_all_iff)
qed

text \<open>
  The claim as first stated fails for quantities beyond the exact range of numbers: for
  \<open>2^53\<close> mugs and one more, the reduce returns \<open>2^53\<close>, one less than the sum of the
  quantities.
\<close>

theorem item_count_rounds_above_exact_range:
  "map_sum id n_item_count (fst (transformOrderToNotification bulk_order None None))
     = Inr (Num 9007199254740992) \<and>
   sum_list (map li_quantity (items_or_empty (o_line_items bulk_order))) = 9007199254740993"
  by (simp add: transform_eq notification_of_def js_sum_def bulk_order_def items_or_empty_def
      mug_order_def mug_item_def round_double_def to_number_def bit_length.simps Let_def)




text \<open>
  Claim C9. The notification has as many line items as the order, and the line item at
  each position is what the callback returns for the input line item at that position: the
  twelve copied fields are those of the input item, and the image is the one resolved for
  it.
\<close>

theorem line_items_joined_positionally:
  "\<exists>n. fst (transformOrderToNotification order shopDomain admin) = Inr n \<and>
       length (n_line_items n) = length (items_or_empty (o_line_items order)) \<and>
       (\<forall>i < length (items_or_empty (o_line_items order)).
          fst (line_item_callback admin (items_or_empty (o_line_items order) ! i))
            = Inr (n_line_items n ! i) \<and>
          ni_name (n_line_items n ! i) = li_name (items_or_empty (o_line_items order) ! i) \<and>
          ni_title (n_line_items n ! i) = li_title (items_or_empty (o_line_items order) ! i) \<and>
          ni_quantity (n_line_items n ! i) = li_quantity (items_or_empty (o_line_items order) ! i) \<and>
          ni_price (n_line_items n ! i) = li_price (items_or_empty (o_line_items order) ! i) \<and>
          ni_sku (n_line_items n ! i) = li_sku (items_or_empty (o_line_items order) ! i) \<and>
          ni_product_id (n_line_items n ! i) = li_product_id (items_or_empty (o_line_items order) ! i) \<and>
          ni_variant_id (n_line_items n ! i) = li_variant_id (items_or_empty (o_line_items order) ! i) \<and>
          ni_grams (n_line_items n ! i) = li_grams (items_or_empty (o_line_items order) ! i) \<and>
          ni_vendor (n_line_items n ! i) = li_vendor (items_or_empty (o_line_items order) ! i) \<and>
          ni_requires_shipping (n_line_items n ! i)
            = li_requires_shipping (items_or_empty (o_line_items order) ! i) \<and>
          ni_taxable (n_line_items n ! i) = li_taxable (items_or_empty (o_line_items order) ! i) \<and>
          ni_gift_card (n_line_items n ! i) = li_gift_card (items_or_empty (o_line_items order) ! i) \<and>
          ni_image (n_line_items n ! i)
            = resolved_image admin (items_or_empty (o_line_items order) ! i))"
  by (simp add: transform_eq notification_of_def line_item_callback_eq notification_item_def)

theorem line_items_joined_positionally_witness:
  "\<exists>n. fst (transformOrderToNotification three_item_order None (Some failing_catalogue)) = Inr n \<and>
       length (n_line_items n) = 3 \<and>
       ni_name (n_line_items n ! 0) = Some (JStr ''Mug'') \<and>
       ni_name (n_line_items n ! 1) = Some (JStr ''Scarf'') \<and>
       ni_name (n_line_items n ! 2) = Some (JStr ''Candle'')"
proof -
  let ?items = "items_or_empty (o_line_items three_item_order)"
  obtain n where n:
    "fst (transformOrderToNotification three_item_order None (Some failing_catalogue)) = Inr n"
    "length (n_line_items n) = length ?items"
    "\<forall>i < length ?items. ni_name (n_line_items n ! i) = li_name (?items ! i)"
    using line_items_joined_positionally [of three_item_order None "Some failing_catalogue"]
    by blast
  have items: "?items ! 0 = mug_item"
    "?items ! 1 = mug_item \<lparr> li_name := Some (JStr ''Scarf''), li_quantity := 1, li_product_id := Some 556 \<rparr>"
    "?items ! 2 = mug_item \<lparr> li_name := Some (JStr ''Candle''), li_quantity := 4, li_product_id := Some 557 \<rparr>"
    "length ?items = 3"
    by (simp_all add: three_item_order_def items_or_empty_def)
  from n(3) items have
    "ni_name (n_line_items n ! 0) = Some (JStr ''Mug'')"
    "ni_name (n_line_items n ! 1) = Some (JStr ''Scarf'')"
    "ni_name (n_line_items n ! 2) = Some (JStr ''Candle'')"
    by (simp_all add: mug_item_def)
  with n(1,2) items(4) show ?thesis by auto
qed

text \<open>
  Claim C10, as amended. The \<^verbatim>\<open>shop\<close> of the notification is the \<^verbatim>\<open>shopDomain\<close>
  argument when one is given and is not the empty string; otherwise it is the
  \<^verbatim>\<open>shop_domain\<close> of the order when the order has one, and the empty string when it
  has none. The \<^verbatim>\<open>test\<close> flag is the flag of the order, and false when the order has
  none.
\<close>

theorem shop_and_test_defaults:
  "\<exists>n. fst (transformOrderToNotification order shopDomain admin) = Inr n \<and>
       (\<forall>s. shopDomain = Some s \<and> s \<noteq> [] \<longrightarrow> n_shop n = s) \<and>
       (shopDomain = None \<or> shopDomain = Some [] \<longrightarrow>
          (\<forall>d. o_shop_domain order = Some d \<longrightarrow> n_shop n = d) \<and>
          (o_shop_domain order = None \<longrightarrow> n_shop n = [])) \<and>
       (o_test order = None \<longrightarrow> n_test n = False) \<and>
       (\<forall>b. o_test order = Some b \<longrightarrow> n_test n = b)"
  by (auto simp add: transform_eq notification_of_def or_default_def or_string_def or_false_def
      split: option.splits)

theorem shop_and_test_defaults_witness:
  "\<exists>n. fst (transformOrderToNotification mug_order (Some ''other.myshopify.com'') None) = Inr n \<and>
       n_shop n = ''other.myshopify.com'' \<and> n_test n = False"
  using shop_and_test_defaults [of mug_order "Some ''other.myshopify.com''" None]
  by (auto simp add: mug_order_def)

text \<open>
  The claim as first stated fails for an empty \<^verbatim>\<open>shopDomain\<close> argument: the argument
  is given, and the notification carries the shop domain of the order instead.
\<close>

theorem empty_shop_argument_falls_through:
  "map_sum id n_shop (fst (transformOrderToNotification mug_order (Some []) None))
     = Inr ''festive.myshopify.com''"
  by (simp add: transform_eq notification_of_def or_default_def or_string_def mug_order_def)

section \<open>What the publisher returns and what it sends\<close>

lemma publishToHookdeck_no_credential:
  "credential env = None \<Longrightarrow>
     publishToHookdeck env fetch sourceName data headers =
       (Inl (Error ''HOOKDECK_API_KEY environment variable is not set''), [Publish])"
  by (simp add: publishToHookdeck_def)

lemma publishToHookdeck_result:
  "credential env = Some apiKey \<Longrightarrow>
     fst (publishToHookdeck env fetch sourceName data headers) =
       (case fetch (publish_request apiKey sourceName data headers) of
          FetchRejects error \<Rightarrow> Inl error
        | FetchResolves response \<Rightarrow>
            if \<not> resp_ok response then
              (case resp_text response of
                 Inl error \<Rightarrow> Inl error
               | Inr errorText \<Rightarrow>
                   Inl (Error (''Hookdeck publish failed: '' @ string_of_nat (resp_status response)
                               @ '' '' @ resp_status_text response @ '' - '' @ errorText)))
            else
              (case resp_json response of
                 Inl error \<Rightarrow> Inl error
               | Inr result \<Rightarrow> Inr result))"
  by (simp add: publishToHookdeck_def Let_def)

lemma publishToHookdeck_trace:
  "snd (publishToHookdeck env fetch sourceName data headers) =
     (case credential env of
        None \<Rightarrow> [Publish]
      | Some apiKey \<Rightarrow> [Publish, HttpPost (publish_request apiKey sourceName data headers)])"
  by (simp add: publishToHookdeck_def Let_def split: option.split)

lemma image_queries_no_post: "filter is_http_post (image_queries admin item) = []"
  by (simp add: image_queries_def split: option.split)

lemma items_no_post: "filter is_http_post (concat (map (image_queries admin) items)) = []"
  by (induction items) (simp_all add: image_queries_no_post)

lemma no_admin_queries: "concat (map (image_queries None) items) = []"
  by (induction items) (simp_all add: image_queries_def)

lemma no_admin_images:
  "list_all (\<lambda>item. ni_image item = None) (n_line_items (notification_of order shopDomain None))"
  by (simp add: notification_of_def notification_item_def resolved_image_def list_all_iff)

lemma publishOrderNotification_trace:
  "snd (publishOrderNotification env fetch order shopDomain admin) =
     snd (transformOrderToNotification order shopDomain admin)
     @ snd (publishToHookdeck env fetch ''shopify-notifications-publish''
              (notification_to_json (notification_of order shopDomain admin)) None)"
  by (simp add: publishOrderNotification_def transform_eq split: prod.split sum.split)

lemma publishOrderNotification_result:
  "fst (publishOrderNotification env fetch order shopDomain admin) =
     (case fst (publishToHookdeck env fetch ''shopify-notifications-publish''
                  (notification_to_json (notification_of order shopDomain admin)) None) of
        Inl error \<Rightarrow> Inl error
      | Inr result \<Rightarrow>
          (case get_prop result ''id'' of Inl error \<Rightarrow> Inl error | Inr ident \<Rightarrow> Inr result))"
  by (simp add: publishOrderNotification_def transform_eq split: prod.split sum.split)

lemma action_eq:
  "authenticate_webhook request = Inr ctx \<Longrightarrow>
     action authenticate_webhook env fetch request =
       (case fst (publishOrderNotification env fetch (wc_payload ctx) (Some (wc_shop ctx))
                    (wc_admin ctx)) of
          Inl error \<Rightarrow> Inl error
        | Inr result \<Rightarrow> Inr (Response 200),
        Authenticate # snd (publishOrderNotification env fetch (wc_payload ctx) (Some (wc_shop ctx))
                              (wc_admin ctx)))"
  by (simp add: action_def split: prod.split sum.split)

lemma credential_with_credential: "credential with_credential = Some ''hk_key''"
  by (simp add: credential_def with_credential_def)

lemma credential_no_credential: "credential no_credential = None"
  by (simp add: credential_def no_credential_def)

section \<open>Claims about the publisher\<close>

text \<open>
  Claim C4, as amended. \<^verbatim>\<open>publishToHookdeck\<close> fails exactly when the credential is not
  configured (it then fails before any request is made), the network call fails, the
  endpoint answers with a status outside 200 to 299, or the body of an answer with a status
  in that range cannot be read as JSON. On a status outside the range, when the text of the
  body can be read, the error raised is the one whose message carries the status, the
  status text and the body. A failing call returns an error and no result.
\<close>

theorem publish_fails_exactly_when:
  "(credential env = None \<longrightarrow>
      publishToHookdeck env fetch sourceName data headers =
        (Inl (Error ''HOOKDECK_API_KEY environment variable is not set''), [Publish])) \<and>
   (\<forall>apiKey. credential env = Some apiKey \<longrightarrow>
      isl (fst (publishToHookdeck env fetch sourceName data headers)) =
        (case fetch (publish_request apiKey sourceName data headers) of
           FetchRejects error \<Rightarrow> True
         | FetchResolves response \<Rightarrow> \<not> resp_ok response \<or> isl (resp_json response))) \<and>
   (\<forall>apiKey response errorText.
      credential env = Some apiKey \<and>
      fetch (publish_request apiKey sourceName data headers) = FetchResolves response \<and>
      \<not> resp_ok response \<and> resp_text response = Inr errorText \<longrightarrow>
      fst (publishToHookdeck env fetch sourceName data headers) =
        Inl (Error (''Hookdeck publish failed: '' @ string_of_nat (resp_status response)
                    @ '' '' @ resp_status_text response @ '' - '' @ errorText)))"
proof (intro conjI allI impI)
  assume "credential env = None"
  then show "publishToHookdeck env fetch sourceName data headers =
        (Inl (Error ''HOOKDECK_API_KEY environment variable is not set''), [Publish])"
    by (rule publishToHookdeck_no_credential)
next
  fix apiKey
  assume "credential env = Some apiKey"
  then show "isl (fst (publishToHookdeck env fetch sourceName data headers)) =
        (case fetch (publish_request apiKey sourceName data headers) of
           FetchRejects error \<Rightarrow> True
         | FetchResolves response \<Rightarrow> \<not> resp_ok response \<or> isl (resp_json response))"
    by (simp add: publishToHookdeck_result split: fetch_outcome.split sum.split)
next
  fix apiKey response errorText
  assume "credential env = Some apiKey \<and>
      fetch (publish_request apiKey sourceName data headers) = FetchResolves response \<and>
      \<not> resp_ok response \<and> resp_text response = Inr errorText"
  then show "fst (publishToHookdeck env fetch sourceName data headers) =
        Inl (Error (''Hookdeck publish failed: '' @ string_of_nat (resp_status response)
                    @ '' '' @ resp_status_text response @ '' - '' @ errorText))"
    by (simp add: publishToHookdeck_result)
qed

theorem publish_fails_exactly_when_witness:
  "credential with_credential = Some ''hk_key'' \<and>
   fetch_unavailable (publish_request ''hk_key'' ''shopify-notifications-publish'' (JObj []) None)
     = FetchResolves unavailable_response \<and>
   fst (publishToHookdeck with_credential fetch_unavailable ''shopify-notifications-publish''
          (JObj []) None)
     = Inl (Error ''Hookdeck publish failed: 503 Service Unavailable - try later'') \<and>
   credential no_credential = None \<and>
   publishToHookdeck no_credential fetch_created ''shopify-notifications-publish'' (JObj []) None
     = (Inl (Error ''HOOKDECK_API_KEY environment variable is not set''), [Publish])"
proof -
  have r: "fetch_unavailable (publish_request ''hk_key'' ''shopify-notifications-publish'' (JObj []) None)
             = FetchResolves unavailable_response"
    by (simp add: fetch_unavailable_def)
  have n: "\<not> resp_ok unavailable_response"
    by (simp add: resp_ok_def unavailable_response_def)
  have t: "resp_text unavailable_response = Inr ''try later''"
    by (simp add: unavailable_response_def)
  have s: "string_of_nat 503 = ''503''"
    by (simp add: string_of_nat.simps digit_char_def)
  from credential_with_credential r n t
  have "fst (publishToHookdeck with_credential fetch_unavailable ''shopify-notifications-publish''
          (JObj []) None)
     = Inl (Error (''Hookdeck publish failed: '' @ string_of_nat (resp_status unavailable_response)
                    @ '' '' @ resp_status_text unavailable_response @ '' - '' @ ''try later''))"
    using publish_fails_exactly_when
      [of with_credential fetch_unavailable "''shopify-notifications-publish''" "JObj []" None]
    by blast
  with s have failed:
    "fst (publishToHookdeck with_credential fetch_unavailable ''shopify-notifications-publish''
          (JObj []) None)
     = Inl (Error ''Hookdeck publish failed: 503 Service Unavailable - try later'')"
    by (simp add: unavailable_response_def)
  from credential_no_credential
  have "publishToHookdeck no_credential fetch_created ''shopify-notifications-publish'' (JObj []) None
     = (Inl (Error ''HOOKDECK_API_KEY environment variable is not set''), [Publish])"
    using publish_fails_exactly_when
      [of no_credential fetch_created "''shopify-notifications-publish''" "JObj []" None]
    by blast
  with failed r credential_with_credential credential_no_credential show ?thesis by simp
qed

text \<open>
  The claim as first stated fails twice. With the credential configured, the endpoint
  answers 200 with a body that is not JSON: the network call succeeded, the status is in
  the range, and the publisher fails. With no credential, the publisher fails although no
  request was made at all.
\<close>

theorem publish_fails_on_success_status:
  "fetch_unparsable (publish_request ''hk_key'' ''shopify-notifications-publish'' (JObj []) None)
     = FetchResolves unparsable_response \<and>
   resp_ok unparsable_response \<and>
   publishToHookdeck with_credential fetch_unparsable ''shopify-notifications-publish'' (JObj []) None
     = (Inl (Failure ''Unexpected token < in JSON at position 0''),
        [Publish,
         HttpPost (publish_request ''hk_key'' ''shopify-notifications-publish'' (JObj []) None)]) \<and>
   publishToHookdeck no_credential fetch_created ''shopify-notifications-publish'' (JObj []) None
     = (Inl (Error ''HOOKDECK_API_KEY environment variable is not set''), [Publish])"
  by (simp add: publishToHookdeck_def credential_with_credential credential_no_credential
      fetch_unparsable_def unparsable_response_def resp_ok_def Let_def)

text \<open>
  Claim C7, as amended. With the credential configured, an invocation of
  \<^verbatim>\<open>publishOrderNotification\<close> hands exactly one request to \<^verbatim>\<open>fetch\<close>: a POST to
  \<^verbatim>\<open>https://hkdk.events/v1/publish\<close> whose headers are \<^verbatim>\<open>Content-Type: application/json\<close>,
  \<^verbatim>\<open>Authorization: Bearer\<close> with the credential, and \<^verbatim>\<open>X-Hookdeck-Source-Name:
  shopify-notifications-publish\<close>, and whose body is the object with the single property
  \<^verbatim>\<open>data\<close> holding the JSON of the notification.
\<close>

theorem publish_issues_one_post:
  "credential env = Some apiKey \<Longrightarrow>
     \<exists>n. fst (transformOrderToNotification order shopDomain admin) = Inr n \<and>
         filter is_http_post (snd (publishOrderNotification env fetch order shopDomain admin)) =
           [HttpPost \<lparr> req_url = ''https://hkdk.events/v1/publish'',
                       req_method = ''POST'',
                       req_headers = [(''Content-Type'', ''application/json''),
                                      (''Authorization'', ''Bearer '' @ apiKey),
                                      (''X-Hookdeck-Source-Name'', ''shopify-notifications-publish'')],
                       req_body = JObj [(''data'', notification_to_json n)] \<rparr>]"
  by (simp add: publishOrderNotification_trace transform_eq publishToHookdeck_trace items_no_post
      publish_request_def spread_def)

theorem publish_issues_one_post_witness:
  "credential with_credential = Some ''hk_key'' \<and>
   (\<exists>n. fst (transformOrderToNotification mug_order (Some ''festive.myshopify.com'') None) = Inr n \<and>
        filter is_http_post
          (snd (publishOrderNotification with_credential fetch_created mug_order
                  (Some ''festive.myshopify.com'') None)) =
          [HttpPost \<lparr> req_url = ''https://hkdk.events/v1/publish'',
                      req_method = ''POST'',
                      req_headers = [(''Content-Type'', ''application/json''),
                                     (''Authorization'', ''Bearer hk_key''),
                                     (''X-Hookdeck-Source-Name'', ''shopify-notifications-publish'')],
                      req_body = JObj [(''data'', notification_to_json n)] \<rparr>])"
  using credential_with_credential
    publish_issues_one_post
      [where env = with_credential and apiKey = "''hk_key''" and order = mug_order
         and shopDomain = "Some ''festive.myshopify.com''" and admin = None
         and fetch = fetch_created]
  by simp

text \<open>
  The claim as first stated fails when the credential is not configured: the invocation
  hands no request to \<^verbatim>\<open>fetch\<close>.
\<close>

theorem no_credential_no_post:
  "filter is_http_post
     (snd (publishOrderNotification no_credential fetch_created mug_order
             (Some ''festive.myshopify.com'') None)) = []"
  by (simp add: publishOrderNotification_trace transform_eq publishToHookdeck_trace items_no_post
      credential_no_credential)

section \<open>Claims about the webhook entry point\<close>

text \<open>
  Claim C5. When the authentication of the inbound request throws, as it does for a
  signature that does not validate, the entry point throws the same rejection at once:
  the normalizer and the publisher are not entered, and no product query and no HTTP
  request is made. This holds for the revision that publishes and for the one that only
  logs.
\<close>

theorem rejected_request_reaches_nothing:
  "authenticate_webhook request = Inl rejection \<Longrightarrow>
     action authenticate_webhook env fetch request = (Inl rejection, [Authenticate]) \<and>
     action_log_only authenticate_webhook request = (Inl rejection, [Authenticate]) \<and>
     Normalize \<notin> set (snd (action authenticate_webhook env fetch request)) \<and>
     Publish \<notin> set (snd (action authenticate_webhook env fetch request))"
  by (simp add: action_def action_log_only_def)

theorem rejected_request_reaches_nothing_witness:
  "reject_signature () = Inl (ThrownResponse 401) \<and>
   action reject_signature with_credential fetch_created ()
     = (Inl (ThrownResponse 401), [Authenticate])"
  using rejected_request_reaches_nothing
    [of reject_signature "()" "ThrownResponse 401" with_credential fetch_created]
  by (simp add: reject_signature_def)

text \<open>
  Claim C6, as amended. In the revision of the route that publishes, an authenticated
  request that comes without an admin client is not an error: the order is normalized,
  every line item is left without an image and no product query is made, and the
  publisher is called with the notification. The reply is an error only when the
  publisher fails or returns \<^verbatim>\<open>null\<close>; with the credential configured the notification
  is handed to \<^verbatim>\<open>fetch\<close>.
\<close>

theorem missing_admin_is_not_an_error:
  "authenticate_webhook request = Inr ctx \<Longrightarrow> wc_admin ctx = None \<Longrightarrow>
     \<exists>n. fst (transformOrderToNotification (wc_payload ctx) (Some (wc_shop ctx)) None) = Inr n \<and>
         n = notification_of (wc_payload ctx) (Some (wc_shop ctx)) None \<and>
         list_all (\<lambda>item. ni_image item = None) (n_line_items n) \<and>
         snd (action authenticate_webhook env fetch request) =
           [Authenticate, Normalize]
           @ snd (publishToHookdeck env fetch ''shopify-notifications-publish''
                    (notification_to_json n) None) \<and>
         fst (action authenticate_webhook env fetch request) =
           (case fst (publishToHookdeck env fetch ''shopify-notifications-publish''
                        (notification_to_json n) None) of
              Inl error \<Rightarrow> Inl error
            | Inr result \<Rightarrow>
                (case get_prop result ''id'' of
                   Inl error \<Rightarrow> Inl error
                 | Inr ident \<Rightarrow> Inr (Response 200))) \<and>
         (\<forall>apiKey. credential env = Some apiKey \<longrightarrow>
            snd (action authenticate_webhook env fetch request) =
              [Authenticate, Normalize, Publish,
               HttpPost (publish_request apiKey ''shopify-notifications-publish''
                           (notification_to_json n) None)]) \<and>
         (credential env = None \<longrightarrow>
            snd (action authenticate_webhook env fetch request) = [Authenticate, Normalize, Publish])"
  by (simp add: action_eq publishOrderNotification_trace publishOrderNotification_result
      transform_eq no_admin_images no_admin_queries publishToHookdeck_trace
      split: sum.split)

theorem missing_admin_is_not_an_error_witness:
  "accept_without_admin () = Inr no_admin_context \<and>
   wc_admin no_admin_context = None \<and>
   credential with_credential = Some ''hk_key'' \<and>
   (\<exists>n. fst (transformOrderToNotification mug_order (Some ''festive.myshopify.com'') None) = Inr n \<and>
        snd (action accept_without_admin with_credential fetch_created ()) =
          [Authenticate, Normalize, Publish,
           HttpPost (publish_request ''hk_key'' ''shopify-notifications-publish''
                       (notification_to_json n) None)])"
proof -
  have accepted: "accept_without_admin () = Inr no_admin_context"
    by (simp add: accept_without_admin_def)
  have no_admin: "wc_admin no_admin_context = None"
    by (simp add: no_admin_context_def)
  have ctx: "wc_payload no_admin_context = mug_order"
    "wc_shop no_admin_context = ''festive.myshopify.com''"
    by (simp_all add: no_admin_context_def)
  from missing_admin_is_not_an_error
      [where authenticate_webhook = accept_without_admin and request = "()"
         and ctx = no_admin_context and env = with_credential and fetch = fetch_created,
       OF accepted no_admin]
    credential_with_credential
  have "\<exists>n. fst (transformOrderToNotification (wc_payload no_admin_context)
                   (Some (wc_shop no_admin_context)) None) = Inr n \<and>
        snd (action accept_without_admin with_credential fetch_created ()) =
          [Authenticate, Normalize, Publish,
           HttpPost (publish_request ''hk_key'' ''shopify-notifications-publish''
                       (notification_to_json n) None)]"
    by blast
  with accepted no_admin credential_with_credential ctx show ?thesis by simp
qed

text \<open>
  The claim as first stated fails for the revision of the route that only logs: for an
  authenticated request without an admin client it throws an empty response, and it
  neither normalizes nor publishes.
\<close>

theorem log_only_route_stops_without_admin:
  "action_log_only accept_without_admin () = (Inl (ThrownResponse 200), [Authenticate])"
  by (simp add: action_log_only_def accept_without_admin_def no_admin_context_def)

text \<open>
  Claim C8, as amended. When \<^verbatim>\<open>HOOKDECK_API_KEY\<close> is not in the environment, the
  publishing route still runs: it authenticates the request and normalizes the order, and
  the publisher then throws before it makes a request. No invocation of
  \<^verbatim>\<open>publishToHookdeck\<close>, of \<^verbatim>\<open>publishOrderNotification\<close> or of the route hands a
  request to \<^verbatim>\<open>fetch\<close> without the credential. Only the helper module
  \<^verbatim>\<open>webhooks\<close>, which the publishing route does not import, throws when it is loaded.
\<close>

theorem missing_credential_fails_each_publish:
  "env ''HOOKDECK_API_KEY'' = None \<Longrightarrow>
     publishToHookdeck env fetch sourceName data headers =
       (Inl (Error ''HOOKDECK_API_KEY environment variable is not set''), [Publish]) \<and>
     fst (publishOrderNotification env fetch order shopDomain admin) =
       Inl (Error ''HOOKDECK_API_KEY environment variable is not set'') \<and>
     filter is_http_post (snd (publishOrderNotification env fetch order shopDomain admin)) = [] \<and>
     (\<forall>ctx. authenticate_webhook request = Inr ctx \<longrightarrow>
        action authenticate_webhook env fetch request =
          (Inl (Error ''HOOKDECK_API_KEY environment variable is not set''),
           Authenticate
           # snd (transformOrderToNotification (wc_payload ctx) (Some (wc_shop ctx)) (wc_admin ctx))
           @ [Publish]) \<and>
        filter is_http_post (snd (action authenticate_webhook env fetch request)) = []) \<and>
     webhooks_module_init env = Inl (Error ''HOOKDECK_API_KEY is required'')"
  by (simp add: webhooks_module_init_def credential_def publishToHookdeck_no_credential
      publishOrderNotification_trace publishOrderNotification_result transform_eq
      publishToHookdeck_trace items_no_post action_eq)

theorem missing_credential_fails_each_publish_witness:
  "no_credential ''HOOKDECK_API_KEY'' = None \<and>
   publishToHookdeck no_credential fetch_created ''shopify-notifications-publish'' (JObj []) None =
     (Inl (Error ''HOOKDECK_API_KEY environment variable is not set''), [Publish]) \<and>
   filter is_http_post
     (snd (publishOrderNotification no_credential fetch_created mug_order None None)) = []"
proof -
  have absent: "no_credential ''HOOKDECK_API_KEY'' = None"
    by (simp add: no_credential_def)
  from absent missing_credential_fails_each_publish
      [where env = no_credential and fetch = fetch_created
         and sourceName = "''shopify-notifications-publish''" and data = "JObj []"
         and headers = None and order = mug_order and shopDomain = None and admin = None
         and authenticate_webhook = accept_without_admin and request = "()"]
  show ?thesis by simp
qed

text \<open>
  The claim as first stated fails for the publishing route: with no credential in the
  environment the route is up and serves a request, which is authenticated and normalized
  and fails only when it reaches the publisher.
\<close>

theorem entry_point_runs_without_credential:
  "action accept_without_admin no_credential fetch_created () =
     (Inl (Error ''HOOKDECK_API_KEY environment variable is not set''),
      [Authenticate, Normalize, Publish])"
  by (simp add: action_eq [of accept_without_admin "()" no_admin_context]
      accept_without_admin_def no_admin_context_def publishOrderNotification_trace
      publishOrderNotification_result transform_eq publishToHookdeck_trace
      publishToHookdeck_no_credential credential_no_credential no_admin_queries)

end
